theory Spec2Isabelle
  imports Complex_Main
begin

section \<open>Session store and route guard (frontend/src/App.tsx)\<close>

text \<open>
  The browser's \<^verbatim>\<open>localStorage\<close> and the request library's table of default headers
  (\<^verbatim>\<open>axios.defaults.headers.common\<close>) are dictionaries from strings to strings.
  \<^verbatim>\<open>getItem\<close> answers \<^verbatim>\<open>null\<close> for a missing key, which is \<open>None\<close> here.
\<close>

type_synonym storage = "string \<rightharpoonup> string"

type_synonym header_table = "string \<rightharpoonup> string"

definition getItem :: "storage \<Rightarrow> string \<Rightarrow> string option" where
  "getItem st k = st k"

definition setItem :: "storage \<Rightarrow> string \<Rightarrow> string \<Rightarrow> storage" where
  "setItem st k v = st(k \<mapsto> v)"

definition removeItem :: "storage \<Rightarrow> string \<Rightarrow> storage" where
  "removeItem st k = st(k := None)"

text \<open>
  The state the \<^verbatim>\<open>App\<close> component owns and the two global tables its callbacks write:
  \<open>token\<close> and \<open>role\<close> are the two \<^verbatim>\<open>useState<string | null>\<close> cells,
  \<open>localStorage\<close> the persisted entries, \<open>common\<close> the default headers that every
  later request of the library starts from.
\<close>

record app =
  token :: "string option"
  role :: "string option"
  localStorage :: storage
  common :: header_table

text \<open>
  Process start (lines 20-21): both cells are initialised from storage, each by its own
  \<^verbatim>\<open>getItem\<close>. Nothing on this path writes the default headers: the library starts
  without an \<^verbatim>\<open>Authorization\<close> entry (its own \<^verbatim>\<open>Accept\<close> default is left out,
  nothing here depends on it).
\<close>

definition App_start :: "storage \<Rightarrow> app" where
  "App_start st =
     \<lparr>token = getItem st ''token'', role = getItem st ''role'',
      localStorage = st, common = Map.empty\<rparr>"

text \<open>Lines 23-29. The template literal is a concatenation, \<open>newToken\<close> being a string.\<close>

definition login :: "string \<Rightarrow> string \<Rightarrow> app \<Rightarrow> app" where
  "login newToken newRole a =
     a\<lparr>token := Some newToken,
       role := Some newRole,
       localStorage := setItem (setItem (localStorage a) ''token'' newToken) ''role'' newRole,
       common := (common a)(''Authorization'' \<mapsto> ''Bearer '' @ newToken)\<rparr>"

text \<open>Lines 31-37.\<close>

definition logout :: "app \<Rightarrow> app" where
  "logout a =
     a\<lparr>token := None,
       role := None,
       localStorage := removeItem (removeItem (localStorage a) ''token'') ''role'',
       common := (common a)(''Authorization'' := None)\<rparr>"

text \<open>
  The tests \<^verbatim>\<open>!token\<close> and \<^verbatim>\<open>token ? a : b\<close> are JavaScript truthiness on a
  \<^verbatim>\<open>string | null\<close>: \<^verbatim>\<open>null\<close> and the empty string are falsy, every other string is
  truthy.
\<close>

definition truthy :: "string option \<Rightarrow> bool" where
  "truthy v = (case v of None \<Rightarrow> False | Some s \<Rightarrow> s \<noteq> [])"

text \<open>
  Lines 44-46: the three routes. A route's element either renders a view or is a
  \<^verbatim>\<open>Navigate\<close> to another path; a path none of the three routes has gives no element.
  (The router's own matching of trailing slashes and letter case is not modelled: the path
  is compared with the three literals.)
\<close>

datatype view = Login | Dashboard

datatype element = Render view | Navigate string

definition Routes :: "string \<Rightarrow> app \<Rightarrow> element option" where
  "Routes path a =
     (if path = ''/login'' then
        Some (if \<not> truthy (token a) then Render Login else Navigate ''/dashboard'')
      else if path = ''/dashboard'' then
        Some (if truthy (token a) then Render Dashboard else Navigate ''/login'')
      else if path = ''/'' then
        Some (Navigate (if truthy (token a) then ''/dashboard'' else ''/login''))
      else None)"

section \<open>Requests (the calls of the request library in Dashboard.tsx)\<close>

text \<open>
  A request as it leaves the client: method, path (relative to the base URL set in
  App.tsx), headers and the multi-part body. The library builds the headers of a request
  from its table of defaults, over which the headers given with the call take precedence.
\<close>

datatype http_method = GET | POST

datatype File = File (file_name: string) (file_bytes: "nat list")

datatype part = Text string | Blob File

record request =
  meth :: http_method
  url :: string
  headers :: header_table
  data :: "(string \<times> part) list"

definition axios_get :: "header_table \<Rightarrow> string \<Rightarrow> request" where
  "axios_get dflt u = \<lparr>meth = GET, url = u, headers = dflt, data = []\<rparr>"

definition axios_post ::
  "header_table \<Rightarrow> string \<Rightarrow> (string \<times> part) list \<Rightarrow> header_table \<Rightarrow> request" where
  "axios_post dflt u d hs = \<lparr>meth = POST, url = u, headers = dflt ++ hs, data = d\<rparr>"

text \<open>
  What the server reads off a request to tell who sent it: method, path and the
  \<^verbatim>\<open>Authorization\<close> header it carries, if any.
\<close>

definition wire :: "request \<Rightarrow> http_method \<times> string \<times> string option" where
  "wire r = (meth r, url r, headers r ''Authorization'')"

text \<open>
  The caught error is untyped (\<^verbatim>\<open>err: any\<close>), so the \<^verbatim>\<open>detail\<close> of a response body is
  whatever JSON value the server put there, not only a string. A number is kept as the text
  JavaScript prints for it (zero prints as \<open>0\<close>, and nothing else does).
\<close>

datatype json =
  JNull | JBool bool | JNum string | JStr string | JArr "json list" | JObj "(string \<times> json) list"

text \<open>
  A call settles in one of two ways: the promise resolves with the response body, or it
  rejects with an error. The error has no response at all (the network failed) or the
  response of a status outside 2xx, whose body may hold a \<^verbatim>\<open>detail\<close>.
  \<open>response_detail\<close> is the chain \<^verbatim>\<open>err.response?.data?.detail\<close>, where \<open>None\<close> is
  \<^verbatim>\<open>undefined\<close>.
\<close>

datatype axios_error = NoResponse | ErrorResponse "json option"

datatype 'a settled = Resolved 'a | Rejected axios_error

fun response_detail :: "axios_error \<Rightarrow> json option" where
  "response_detail NoResponse = None"
| "response_detail (ErrorResponse d) = d"

text \<open>
  Truthiness of a JSON value and its conversion to a string, as a template literal does
  it: an array prints its elements separated by commas, with nothing for a
  \<^verbatim>\<open>null\<close> element, and every object prints as \<^verbatim>\<open>[object Object]\<close>.
\<close>

fun js_truthy :: "json \<Rightarrow> bool" where
  "js_truthy JNull = False"
| "js_truthy (JBool b) = b"
| "js_truthy (JNum p) = (p \<noteq> ''0'')"
| "js_truthy (JStr s) = (s \<noteq> [])"
| "js_truthy (JArr xs) = True"
| "js_truthy (JObj kvs) = True"

fun js_join :: "string \<Rightarrow> string list \<Rightarrow> string" where
  "js_join sep [] = []"
| "js_join sep [x] = x"
| "js_join sep (x # y # ys) = x @ sep @ js_join sep (y # ys)"

fun js_string :: "json \<Rightarrow> string" where
  "js_string JNull = ''null''"
| "js_string (JBool b) = (if b then ''true'' else ''false'')"
| "js_string (JNum p) = p"
| "js_string (JStr s) = s"
| "js_string (JArr xs) = js_join '','' (map (\<lambda>x. if x = JNull then [] else js_string x) xs)"
| "js_string (JObj kvs) = ''[object Object]''"

text \<open>
  \<^verbatim>\<open>${x || y}\<close> with \<open>x\<close> an optional JSON value and \<open>y\<close> a string: \<open>x\<close> printed when
  it is truthy, \<open>y\<close> otherwise. \<open>bearer\<close> is the template literal of line 82, where
  \<^verbatim>\<open>token\<close> may be \<^verbatim>\<open>null\<close> and then prints as the four letters of that word.
\<close>

definition js_or :: "json option \<Rightarrow> string \<Rightarrow> string" where
  "js_or x y = (case x of None \<Rightarrow> y | Some v \<Rightarrow> if js_truthy v then js_string v else y)"

definition bearer :: "string option \<Rightarrow> string" where
  "bearer tok = ''Bearer '' @ (case tok of None \<Rightarrow> ''null'' | Some t \<Rightarrow> t)"

section \<open>Dashboard (frontend/src/components/Dashboard.tsx)\<close>

record person =
  person_id :: int
  person_name :: string
  person_category :: string
  person_expiry :: "string option"
  person_contact :: "string option"

record event =
  event_id :: int
  event_category :: string
  similarity :: "real option"
  timestamp :: string

record form =
  name :: string
  category :: string
  expiry :: string
  contact :: string

definition form_default :: form where
  "form_default = \<lparr>name = [], category = ''Family'', expiry = [], contact = []\<rparr>"

text \<open>The six state cells of the component (lines 25-30) and their initial values
  (\<open>file_sel\<close> is the cell \<^verbatim>\<open>file\<close>, a reserved word here).\<close>

record dashboard =
  persons :: "person list"
  events :: "event list"
  form :: form
  file_sel :: "File option"
  message :: string
  loading :: bool

definition Dashboard_initial :: dashboard where
  "Dashboard_initial =
     \<lparr>persons = [], events = [], form = form_default, file_sel = None,
      message = [], loading = False\<rparr>"

text \<open>
  What the component does to the world outside its state: the requests it has sent (in
  order), the lines it wrote with \<^verbatim>\<open>console.error\<close>, and the path it navigated to.
\<close>

record browser =
  sent :: "request list"
  console :: "(string \<times> axios_error) list"
  location :: string

type_synonym page = "dashboard \<times> browser"

definition navigate :: "string \<Rightarrow> page \<Rightarrow> page" where
  "navigate p pg = (fst pg, (snd pg)\<lparr>location := p\<rparr>)"

text \<open>
  Lines 38-45 and 47-54. The call gives no headers of its own, so the request carries the
  default table as it is when the call is made. The second argument is how the call
  settles. A rejection is caught and logged; no state cell is written.
\<close>

definition fetchPersons :: "app \<Rightarrow> person list settled \<Rightarrow> page \<Rightarrow> page" where
  "fetchPersons a reply pg =
     (let d = fst pg;
          b = (snd pg)\<lparr>sent := sent (snd pg) @ [axios_get (common a) ''/persons'']\<rparr>
      in case reply of
           Resolved response_data \<Rightarrow> (d\<lparr>persons := response_data\<rparr>, b)
         | Rejected err \<Rightarrow> (d, b\<lparr>console := console b @ [(''Error fetching persons:'', err)]\<rparr>))"

definition fetchEvents :: "app \<Rightarrow> event list settled \<Rightarrow> page \<Rightarrow> page" where
  "fetchEvents a reply pg =
     (let d = fst pg;
          b = (snd pg)\<lparr>sent := sent (snd pg) @ [axios_get (common a) ''/events'']\<rparr>
      in case reply of
           Resolved response_data \<Rightarrow> (d\<lparr>events := response_data\<rparr>, b)
         | Rejected err \<Rightarrow> (d, b\<lparr>console := console b @ [(''Error fetching events:'', err)]\<rparr>))"

text \<open>
  Lines 32-36, the effect run when the component is entered: the redirect is one
  statement, the two fetches follow it whatever the token. Neither fetch is awaited; they
  write different cells, so the state after both have settled does not depend on the order
  in which they settle, and the model takes them one after the other.
\<close>

definition Dashboard_effect ::
  "app \<Rightarrow> person list settled \<Rightarrow> event list settled \<Rightarrow> page \<Rightarrow> page" where
  "Dashboard_effect a persons_reply events_reply pg =
     fetchEvents a events_reply
       (fetchPersons a persons_reply
          (if \<not> truthy (token a) then navigate ''/login'' pg else pg))"

text \<open>
  Lines 56-59 and 61-63. The first handler is shared by the four named controls of the
  form and writes the field its target is named after (a target of another name would add
  a property that nothing reads). The second copies the first file of the file input's
  selection into the file cell; an empty selection leaves the cell without a file.
\<close>

definition handleInputChange :: "string \<Rightarrow> string \<Rightarrow> page \<Rightarrow> page" where
  "handleInputChange target_name target_value pg =
     (let prev = form (fst pg) in
      ((fst pg)\<lparr>form :=
          (if target_name = ''name'' then prev\<lparr>name := target_value\<rparr>
           else if target_name = ''category'' then prev\<lparr>category := target_value\<rparr>
           else if target_name = ''expiry'' then prev\<lparr>expiry := target_value\<rparr>
           else if target_name = ''contact'' then prev\<lparr>contact := target_value\<rparr>
           else prev)\<rparr>,
       snd pg))"

definition handleFileChange :: "File list option \<Rightarrow> page \<Rightarrow> page" where
  "handleFileChange target_files pg =
     (case target_files of
        None \<Rightarrow> pg
      | Some fs \<Rightarrow> ((fst pg)\<lparr>file_sel := (case fs of [] \<Rightarrow> None | f # _ \<Rightarrow> Some f)\<rparr>, snd pg))"

text \<open>
  Lines 65-94.\<open>enroll_reply\<close> settles the POST (the resolved value is
  \<^verbatim>\<open>response.data.message\<close>), \<open>persons_reply\<close> the roster fetch of the success branch.
  That fetch is not awaited either: \<^verbatim>\<open>finally\<close> clears \<open>loading\<close> before the roster
  arrives, and the state once everything has settled is the one computed here.
\<close>

definition formData :: "form \<Rightarrow> File \<Rightarrow> (string \<times> part) list" where
  "formData fm f =
     [(''name'', Text (name fm)), (''category'', Text (category fm))]
     @ (if expiry fm \<noteq> [] then [(''expiry'', Text (expiry fm))] else [])
     @ (if contact fm \<noteq> [] then [(''contact'', Text (contact fm))] else [])
     @ [(''file'', Blob f)]"

definition enroll_request :: "app \<Rightarrow> form \<Rightarrow> File \<Rightarrow> request" where
  "enroll_request a fm f =
     axios_post (common a) ''/enroll'' (formData fm f)
       [''Content-Type'' \<mapsto> ''multipart/form-data'',
        ''Authorization'' \<mapsto> bearer (token a)]"

definition handleEnroll ::
  "app \<Rightarrow> string settled \<Rightarrow> person list settled \<Rightarrow> page \<Rightarrow> page" where
  "handleEnroll a enroll_reply persons_reply pg =
     (let d = fst pg; b = snd pg in
      case file_sel d of
        None \<Rightarrow> (d\<lparr>message := ''Please select an image file''\<rparr>, b)
      | Some f \<Rightarrow>
          (let d1 = d\<lparr>loading := True, message := []\<rparr>;
               b1 = b\<lparr>sent := sent b @ [enroll_request a (form d) f]\<rparr>
           in case enroll_reply of
                Resolved response_message \<Rightarrow>
                  (let pg2 = fetchPersons a persons_reply
                               (d1\<lparr>message := response_message, form := form_default,
                                   file_sel := None\<rparr>, b1)
                   in ((fst pg2)\<lparr>loading := False\<rparr>, snd pg2))
              | Rejected err \<Rightarrow>
                  (d1\<lparr>message :=
                        ''Error: '' @ js_or (response_detail err) ''Enrollment failed'',
                      loading := False\<rparr>, b1)))"

text \<open>
  Lines 132-178, the form. \<open>handleEnroll\<close> is its submit handler and has no other
  caller. A click on the submit button reaches it only when the button is enabled
  (\<^verbatim>\<open>disabled={loading}\<close>, line 173) and both \<^verbatim>\<open>required\<close> controls have a value: the
  name input (line 139), whose value is the name field of the form cell, and the file
  input (line 169), whose selection \<open>files\<close> is kept by the browser and written by
  nothing in the component. Otherwise the browser reports the first control that lacks a
  value, in its own words, and the handler is not called.
\<close>

datatype control = NameInput | FileInput

datatype gate = Disabled | Invalid control | Valid

definition form_gate :: "File list \<Rightarrow> dashboard \<Rightarrow> gate" where
  "form_gate files d =
     (if loading d then Disabled
      else if name (form d) = [] then Invalid NameInput
      else if files = [] then Invalid FileInput
      else Valid)"

definition click_enroll ::
  "File list \<Rightarrow> app \<Rightarrow> string settled \<Rightarrow> person list settled \<Rightarrow> page \<Rightarrow> page" where
  "click_enroll files a enroll_reply persons_reply pg =
     (case form_gate files (fst pg) of
        Valid \<Rightarrow> handleEnroll a enroll_reply persons_reply pg
      | Disabled \<Rightarrow> pg
      | Invalid c \<Rightarrow> pg)"

section \<open>Runs of the application\<close>

text \<open>
  The session states the application can be in. The first start finds neither of the
  store's two entries in storage (other keys may be there); a later start finds what the
  store left there; in between, \<open>login\<close> and \<open>logout\<close> are the only writers of the two
  cells and the two entries.
\<close>

inductive reachable :: "app \<Rightarrow> bool" where
  first_start:
    "getItem st ''token'' = None \<Longrightarrow> getItem st ''role'' = None \<Longrightarrow> reachable (App_start st)"
| restart: "reachable a \<Longrightarrow> reachable (App_start (localStorage a))"
| after_login: "reachable a \<Longrightarrow> reachable (login t r a)"
| after_logout: "reachable a \<Longrightarrow> reachable (logout a)"

text \<open>
  The session of the specification's data model: the credential token is an opaque string
  or absent, and a session is there when the token is. This definition follows the
  specification's words; \<open>truthy\<close> above is the test the guard makes.
\<close>

definition spec_session_present :: "app \<Rightarrow> bool" where
  "spec_session_present a = (token a \<noteq> None)"

text \<open>The world around a component that has just been entered at path \<open>p\<close>.\<close>

definition browser_at :: "string \<Rightarrow> browser" where
  "browser_at p = \<lparr>sent = [], console = [], location = p\<rparr>"

text \<open>
  A navigation inside the application. The router looks the path up among the routes; a
  \<^verbatim>\<open>Navigate\<close> element sends it on to another path, which is looked up in turn, and a
  rendered view ends the navigation at the path it has then. The first argument bounds the
  number of lookups; \<open>None\<close> is a path without a route (or a bound that was too small:
  two lookups are always enough, as is proved below).
\<close>

fun landing :: "nat \<Rightarrow> string \<Rightarrow> app \<Rightarrow> (string \<times> view) option" where
  "landing 0 path a = None"
| "landing (Suc n) path a =
     (case Routes path a of
        None \<Rightarrow> None
      | Some (Render v) \<Rightarrow> Some (path, v)
      | Some (Navigate p) \<Rightarrow> landing n p a)"

text \<open>
  Entering the application at a path. Only when the navigation ends in the dashboard view
  is the \<^verbatim>\<open>Dashboard\<close> component mounted, with its cells at their initial values, and only
  then does its entry effect run; the login view sends nothing when it is entered.
\<close>

definition visit ::
  "string \<Rightarrow> app \<Rightarrow> person list settled \<Rightarrow> event list settled \<Rightarrow> browser \<Rightarrow>
   dashboard option \<times> browser" where
  "visit path a persons_reply events_reply b =
     (case landing 2 path a of
        None \<Rightarrow> (None, b\<lparr>location := path\<rparr>)
      | Some (p, Login) \<Rightarrow> (None, b\<lparr>location := p\<rparr>)
      | Some (p, Dashboard) \<Rightarrow>
          (let pg = Dashboard_effect a persons_reply events_reply
                      (Dashboard_initial, b\<lparr>location := p\<rparr>)
           in (Some (fst pg), snd pg)))"


section \<open>Properties of the session store\<close>

lemma login_fields:
  "token (login t r a) = Some t"
  "role (login t r a) = Some r"
  "localStorage (login t r a) = (localStorage a)(''token'' \<mapsto> t, ''role'' \<mapsto> r)"
  "common (login t r a) = (common a)(''Authorization'' \<mapsto> ''Bearer '' @ t)"
  by (simp_all add: login_def setItem_def)

lemma logout_fields:
  "token (logout a) = None"
  "role (logout a) = None"
  "localStorage (logout a) = (localStorage a)(''token'' := None, ''role'' := None)"
  "common (logout a) = (common a)(''Authorization'' := None)"
  by (simp_all add: logout_def removeItem_def)

lemma App_start_fields:
  "token (App_start st) = getItem st ''token''"
  "role (App_start st) = getItem st ''role''"
  "localStorage (App_start st) = st"
  "common (App_start st) = Map.empty"
  by (simp_all add: App_start_def)

text \<open>
  Claim C3. After \<open>login t r\<close> the session holds token \<open>t\<close> and role \<open>r\<close> and storage
  holds both entries with these values; after \<open>logout\<close> token and role are absent from
  the session and from storage. Each operation writes (removes) the two entries in the same
  call, and leaves every other storage key as it was.
\<close>

theorem login_logout_session_and_storage:
  "token (login t r a) = Some t \<and> role (login t r a) = Some r \<and>
   getItem (localStorage (login t r a)) ''token'' = Some t \<and>
   getItem (localStorage (login t r a)) ''role'' = Some r \<and>
   token (logout a) = None \<and> role (logout a) = None \<and>
   getItem (localStorage (logout a)) ''token'' = None \<and>
   getItem (localStorage (logout a)) ''role'' = None \<and>
   (k \<noteq> ''token'' \<and> k \<noteq> ''role'' \<longrightarrow>
      getItem (localStorage (login t r a)) k = getItem (localStorage a) k \<and>
      getItem (localStorage (logout a)) k = getItem (localStorage a) k)"
  by (simp add: login_fields logout_fields getItem_def)

theorem login_logout_session_and_storage_witness:
  "token (login ''abc'' ''operator'' (App_start Map.empty)) = Some ''abc'' \<and>
   role (login ''abc'' ''operator'' (App_start Map.empty)) = Some ''operator'' \<and>
   getItem (localStorage (login ''abc'' ''operator'' (App_start Map.empty))) ''token'' = Some ''abc'' \<and>
   getItem (localStorage (login ''abc'' ''operator'' (App_start Map.empty))) ''role'' = Some ''operator'' \<and>
   getItem (localStorage (logout (login ''abc'' ''operator'' (App_start Map.empty)))) ''token'' = None \<and>
   getItem (localStorage (logout (login ''abc'' ''operator'' (App_start Map.empty)))) ''role'' = None \<and>
   getItem (localStorage (login ''abc'' ''operator'' (App_start [''theme'' \<mapsto> ''dark'']))) ''theme'' = Some ''dark''"
  using login_logout_session_and_storage [of "''abc''" "''operator''" "App_start Map.empty" "''theme''"]
    login_logout_session_and_storage [of "''abc''" "''operator''" "App_start [''theme'' \<mapsto> ''dark'']" "''theme''"]
    login_logout_session_and_storage [of "''abc''" "''operator''" "login ''abc'' ''operator'' (App_start Map.empty)" "''theme''"]
  by (simp add: App_start_def getItem_def)

text \<open>
  Claim C2. In every reachable state the token and the role are both present or both
  absent, in the session and in storage alike. The start copies the two entries as it finds
  them, so the session is paired because storage is, and storage is paired because
  \<open>login\<close> and \<open>logout\<close> are its only writers.
\<close>

theorem reachable_token_role_paired:
  assumes "reachable a"
  shows "(token a = None \<longleftrightarrow> role a = None) \<and>
         (getItem (localStorage a) ''token'' = None \<longleftrightarrow>
          getItem (localStorage a) ''role'' = None)"
  using assms
proof (induction rule: reachable.induct)
  case (first_start st)
  then show ?case by (simp add: App_start_fields)
next
  case (restart a)
  then show ?case by (simp add: App_start_fields)
next
  case (after_login a t r)
  show ?case by (simp add: login_fields getItem_def)
next
  case (after_logout a)
  show ?case by (simp add: logout_fields getItem_def)
qed

theorem reachable_token_role_paired_witness:
  "reachable (App_start (localStorage (login ''abc'' ''operator'' (App_start Map.empty)))) \<and>
   token (App_start (localStorage (login ''abc'' ''operator'' (App_start Map.empty)))) = Some ''abc'' \<and>
   role (App_start (localStorage (login ''abc'' ''operator'' (App_start Map.empty)))) = Some ''operator'' \<and>
   reachable (logout (login ''abc'' ''operator'' (App_start Map.empty))) \<and>
   token (logout (login ''abc'' ''operator'' (App_start Map.empty))) = None \<and>
   role (logout (login ''abc'' ''operator'' (App_start Map.empty))) = None"
proof -
  have r0: "reachable (App_start Map.empty)"
    by (rule first_start) (simp_all add: getItem_def)
  have r1: "reachable (App_start (localStorage (login ''abc'' ''operator'' (App_start Map.empty))))"
    by (rule restart, rule after_login, rule r0)
  have r2: "reachable (logout (login ''abc'' ''operator'' (App_start Map.empty)))"
    by (rule after_logout, rule after_login, rule r0)
  show ?thesis
    using r1 r2 reachable_token_role_paired [OF r1] reachable_token_role_paired [OF r2]
    by (simp add: App_start_fields login_fields logout_fields getItem_def)
qed

section \<open>Properties of the route guard\<close>

text \<open>
  Claim C4, as the code has it. The guard is a function of the path and the session's
  token alone: the login view is rendered iff the token is absent or the empty string and
  redirects to the dashboard otherwise, the dashboard view is rendered iff the token is a
  non-empty string and redirects to login otherwise, the root path always redirects, to the
  dashboard for a non-empty token and to login otherwise. Two states with the same token
  get the same outcome at every path, whatever their role, storage and default headers.
\<close>

theorem Routes_by_truthy_token:
  "Routes ''/login'' a =
     Some (if truthy (token a) then Navigate ''/dashboard'' else Render Login) \<and>
   Routes ''/dashboard'' a =
     Some (if truthy (token a) then Render Dashboard else Navigate ''/login'') \<and>
   Routes ''/'' a = Some (Navigate (if truthy (token a) then ''/dashboard'' else ''/login'')) \<and>
   (truthy (token a) \<longleftrightarrow> (\<exists>t. token a = Some t \<and> t \<noteq> '''')) \<and>
   (token a = token b \<longrightarrow> Routes p a = Routes p b)"
  by (auto simp: Routes_def truthy_def split: option.splits)

theorem Routes_by_truthy_token_witness:
  "token (login ''abc'' ''operator'' (App_start Map.empty)) =
     token (login ''abc'' ''admin'' (App_start [''theme'' \<mapsto> ''dark''])) \<and>
   Routes ''/dashboard'' (login ''abc'' ''operator'' (App_start Map.empty)) =
     Some (Render Dashboard) \<and>
   Routes ''/dashboard'' (login ''abc'' ''admin'' (App_start [''theme'' \<mapsto> ''dark''])) =
     Some (Render Dashboard) \<and>
   Routes ''/login'' (login ''abc'' ''operator'' (App_start Map.empty)) =
     Some (Navigate ''/dashboard'') \<and>
   Routes ''/'' (login ''abc'' ''operator'' (App_start Map.empty)) =
     Some (Navigate ''/dashboard'') \<and>
   Routes ''/dashboard'' (logout (login ''abc'' ''operator'' (App_start Map.empty))) =
     Some (Navigate ''/login'')"
  using Routes_by_truthy_token [of "login ''abc'' ''operator'' (App_start Map.empty)"
      "login ''abc'' ''admin'' (App_start [''theme'' \<mapsto> ''dark''])" "''/dashboard''"]
    Routes_by_truthy_token [of "logout (login ''abc'' ''operator'' (App_start Map.empty))"
      "logout (login ''abc'' ''operator'' (App_start Map.empty))" "''/dashboard''"]
  by (auto simp: login_fields logout_fields truthy_def)

text \<open>
  Claim C4 as stated fails for a session whose token is the empty string: after
  \<open>login '''' ''operator''\<close> the session holds a token and a role, yet the guard renders
  the login view and sends the dashboard and the root path to login.
\<close>

theorem Routes_empty_token_counterexample:
  "spec_session_present (login '''' ''operator'' (App_start Map.empty)) \<and>
   Routes ''/login'' (login '''' ''operator'' (App_start Map.empty)) = Some (Render Login) \<and>
   Routes ''/dashboard'' (login '''' ''operator'' (App_start Map.empty)) =
     Some (Navigate ''/login'') \<and>
   Routes ''/'' (login '''' ''operator'' (App_start Map.empty)) = Some (Navigate ''/login'')"
  by (simp add: spec_session_present_def Routes_def truthy_def login_fields)

section \<open>Properties of the roster and event fetches\<close>

lemma fetchPersons_simps:
  "fetchPersons a (Resolved ps) (d, b) =
     (d\<lparr>persons := ps\<rparr>, b\<lparr>sent := sent b @ [axios_get (common a) ''/persons'']\<rparr>)"
  "fetchPersons a (Rejected err) (d, b) =
     (d, b\<lparr>sent := sent b @ [axios_get (common a) ''/persons''],
            console := console b @ [(''Error fetching persons:'', err)]\<rparr>)"
  by (simp_all add: fetchPersons_def)

lemma fetchEvents_simps:
  "fetchEvents a (Resolved es) (d, b) =
     (d\<lparr>events := es\<rparr>, b\<lparr>sent := sent b @ [axios_get (common a) ''/events'']\<rparr>)"
  "fetchEvents a (Rejected err) (d, b) =
     (d, b\<lparr>sent := sent b @ [axios_get (common a) ''/events''],
            console := console b @ [(''Error fetching events:'', err)]\<rparr>)"
  by (simp_all add: fetchEvents_def)

lemma sent_fetchPersons:
  "sent (snd (fetchPersons a rp pg)) = sent (snd pg) @ [axios_get (common a) ''/persons'']"
  by (cases rp; cases pg) (simp_all add: fetchPersons_simps)

lemma sent_fetchEvents:
  "sent (snd (fetchEvents a re pg)) = sent (snd pg) @ [axios_get (common a) ''/events'']"
  by (cases re; cases pg) (simp_all add: fetchEvents_simps)

lemma location_fetchPersons: "location (snd (fetchPersons a rp pg)) = location (snd pg)"
  by (cases rp; cases pg) (simp_all add: fetchPersons_simps)

lemma location_fetchEvents: "location (snd (fetchEvents a re pg)) = location (snd pg)"
  by (cases re; cases pg) (simp_all add: fetchEvents_simps)

lemma wire_axios_get: "wire (axios_get h u) = (GET, u, h ''Authorization'')"
  by (simp add: wire_def axios_get_def)

lemma wire_enroll_request:
  "wire (enroll_request a fm f) = (POST, ''/enroll'', Some (bearer (token a)))"
  by (simp add: wire_def enroll_request_def axios_post_def)

text \<open>
  What does hold of the bearer credential. The enrollment request names its own header,
  built from the session's token when the call is made; the two fetches carry the default
  table, which holds the token of the last \<open>login\<close> and nothing after \<open>logout\<close>.
\<close>

lemma enroll_request_carries_session_token:
  "token a = Some t \<Longrightarrow> wire (enroll_request a fm f) = (POST, ''/enroll'', Some (''Bearer '' @ t))"
  by (simp add: wire_enroll_request bearer_def)

lemma requests_after_login_carry_token:
  "map wire (sent (snd (Dashboard_effect (login t r a) rp re (d, b)))) =
     map wire (sent b) @
     [(GET, ''/persons'', Some (''Bearer '' @ t)), (GET, ''/events'', Some (''Bearer '' @ t))]"
  "wire (enroll_request (login t r a) fm f) = (POST, ''/enroll'', Some (''Bearer '' @ t))"
  by (simp_all add: Dashboard_effect_def sent_fetchEvents sent_fetchPersons wire_axios_get
      wire_enroll_request bearer_def login_fields navigate_def)

text \<open>
  Claim C1 fails on the code for a restored session. The process starts with the two
  entries of an earlier login in storage: the session holds the token, the guard renders
  the dashboard, and the two fetches issued on entry leave without any
  \<^verbatim>\<open>Authorization\<close> header, since only \<open>login\<close> writes the default table.
\<close>

theorem restored_token_not_attached_to_fetches:
  "token (App_start [''token'' \<mapsto> ''abc'', ''role'' \<mapsto> ''operator'']) = Some ''abc'' \<and>
   Routes ''/dashboard'' (App_start [''token'' \<mapsto> ''abc'', ''role'' \<mapsto> ''operator'']) =
     Some (Render Dashboard) \<and>
   map wire (sent (snd (Dashboard_effect
       (App_start [''token'' \<mapsto> ''abc'', ''role'' \<mapsto> ''operator''])
       (Resolved []) (Resolved []) (Dashboard_initial, browser_at ''/dashboard'')))) =
     [(GET, ''/persons'', None), (GET, ''/events'', None)]"
  by (simp add: App_start_fields getItem_def Routes_def truthy_def Dashboard_effect_def
      sent_fetchEvents sent_fetchPersons wire_axios_get browser_at_def)

text \<open>
  Claim C9. When the roster fetch or the event fetch is rejected, the error is written to
  the console and nothing else happens: all six state cells, among them both snapshots and
  the displayed message, are what they were, and the location is unchanged. The same holds
  when both fetches of the entry effect are rejected.
\<close>

theorem fetch_failure_only_logged:
  "fetchPersons a (Rejected err) (d, b) =
     (d, b\<lparr>sent := sent b @ [axios_get (common a) ''/persons''],
            console := console b @ [(''Error fetching persons:'', err)]\<rparr>) \<and>
   fetchEvents a (Rejected err) (d, b) =
     (d, b\<lparr>sent := sent b @ [axios_get (common a) ''/events''],
            console := console b @ [(''Error fetching events:'', err)]\<rparr>) \<and>
   fst (Dashboard_effect a (Rejected err) (Rejected err') (d, b)) = d"
  by (simp add: fetchPersons_simps fetchEvents_simps Dashboard_effect_def navigate_def)


lemma sent_Dashboard_effect:
  "sent (snd (Dashboard_effect a rp re pg)) =
     sent (snd pg) @ [axios_get (common a) ''/persons'', axios_get (common a) ''/events'']"
  by (simp add: Dashboard_effect_def sent_fetchEvents sent_fetchPersons navigate_def)

lemma location_Dashboard_effect:
  "location (snd (Dashboard_effect a rp re pg)) =
     (if truthy (token a) then location (snd pg) else ''/login'')"
  by (simp add: Dashboard_effect_def location_fetchEvents location_fetchPersons navigate_def)

section \<open>Properties of entering the dashboard\<close>

text \<open>
  Where a navigation ends: at the dashboard for a truthy token and at the login view
  otherwise, from each of the three routes, after at most two lookups; a larger bound
  changes nothing, and no other path has a route.
\<close>

lemma landing_routes:
  "landing (Suc (Suc n)) ''/dashboard'' a =
     Some (if truthy (token a) then (''/dashboard'', Dashboard) else (''/login'', Login))"
  "landing (Suc (Suc n)) ''/login'' a =
     Some (if truthy (token a) then (''/dashboard'', Dashboard) else (''/login'', Login))"
  "landing (Suc (Suc n)) ''/'' a =
     Some (if truthy (token a) then (''/dashboard'', Dashboard) else (''/login'', Login))"
  by (simp_all add: Routes_def)

lemma landing_no_route:
  "p \<noteq> ''/dashboard'' \<Longrightarrow> p \<noteq> ''/login'' \<Longrightarrow> p \<noteq> ''/'' \<Longrightarrow> landing n p a = None"
  by (cases n) (simp_all add: Routes_def)

lemma landing_two_lookups: "landing (Suc (Suc n)) p a = landing 2 p a"
proof (cases "p = ''/dashboard'' \<or> p = ''/login'' \<or> p = ''/''")
  case True
  then show ?thesis
    using landing_routes [of n a] landing_routes [of 0 a]
    by (auto simp: numeral_2_eq_2)
next
  case False
  then have ne: "p \<noteq> ''/dashboard''" "p \<noteq> ''/login''" "p \<noteq> ''/''"
    by simp_all
  show ?thesis
    by (simp only: landing_no_route [OF ne])
qed

lemma visit_truthy:
  assumes "truthy (token a)" and "p = ''/dashboard'' \<or> p = ''/login'' \<or> p = ''/''"
  shows "visit p a rp re b =
           (Some (fst (Dashboard_effect a rp re (Dashboard_initial, b\<lparr>location := ''/dashboard''\<rparr>))),
            snd (Dashboard_effect a rp re (Dashboard_initial, b\<lparr>location := ''/dashboard''\<rparr>)))"
  using assms landing_routes [of 0 a]
  by (auto simp: visit_def numeral_2_eq_2 Let_def)

lemma visit_falsy:
  assumes "\<not> truthy (token a)" and "p = ''/dashboard'' \<or> p = ''/login'' \<or> p = ''/''"
  shows "visit p a rp re b = (None, b\<lparr>location := ''/login''\<rparr>)"
  using assms landing_routes [of 0 a]
  by (auto simp: visit_def numeral_2_eq_2)

text \<open>
  Claim C10, as the code has it. Whenever the dashboard view is entered, the roster
  request and the event request are both sent, whatever their replies: the effect puts no
  condition on them, its redirect being a statement of its own. But the view is entered
  only with a truthy token. Without one (no token or the empty string) a navigation to the
  dashboard path, like one to the root or the login path, ends in the login view, the
  component is not mounted, its effect does not run, and nothing is sent.
\<close>

theorem visit_dashboard_fetches:
  "(truthy (token a) \<longrightarrow>
      fst (visit ''/dashboard'' a rp re b) \<noteq> None \<and>
      sent (snd (visit ''/dashboard'' a rp re b)) =
        sent b @ [axios_get (common a) ''/persons'', axios_get (common a) ''/events''] \<and>
      location (snd (visit ''/dashboard'' a rp re b)) = ''/dashboard'' \<and>
      visit ''/'' a rp re b = visit ''/dashboard'' a rp re b \<and>
      visit ''/login'' a rp re b = visit ''/dashboard'' a rp re b) \<and>
   (\<not> truthy (token a) \<longrightarrow>
      visit ''/dashboard'' a rp re b = (None, b\<lparr>location := ''/login''\<rparr>) \<and>
      visit ''/'' a rp re b = (None, b\<lparr>location := ''/login''\<rparr>) \<and>
      visit ''/login'' a rp re b = (None, b\<lparr>location := ''/login''\<rparr>))"
  by (simp add: visit_truthy visit_falsy sent_Dashboard_effect location_Dashboard_effect)

theorem visit_dashboard_fetches_witness:
  "truthy (token (login ''abc'' ''operator'' (App_start Map.empty))) \<and>
   map wire (sent (snd (visit ''/dashboard'' (login ''abc'' ''operator'' (App_start Map.empty))
      (Rejected NoResponse) (Resolved []) (browser_at ''/'')))) =
     [(GET, ''/persons'', Some ''Bearer abc''), (GET, ''/events'', Some ''Bearer abc'')] \<and>
   location (snd (visit ''/dashboard'' (login ''abc'' ''operator'' (App_start Map.empty))
      (Rejected NoResponse) (Resolved []) (browser_at ''/''))) = ''/dashboard'' \<and>
   \<not> truthy (token (login '''' ''operator'' (App_start Map.empty))) \<and>
   visit ''/dashboard'' (login '''' ''operator'' (App_start Map.empty))
      (Resolved []) (Resolved []) (browser_at ''/'') =
     (None, \<lparr>sent = [], console = [], location = ''/login''\<rparr>)"
proof -
  have t: "truthy (token (login ''abc'' ''operator'' (App_start Map.empty)))"
    by (simp add: truthy_def login_fields)
  have f: "\<not> truthy (token (login '''' ''operator'' (App_start Map.empty)))"
    by (simp add: truthy_def login_fields)
  show ?thesis
    using t f
      visit_dashboard_fetches [of "login ''abc'' ''operator'' (App_start Map.empty)"
        "Rejected NoResponse" "Resolved []" "browser_at ''/''"]
      visit_dashboard_fetches [of "login '''' ''operator'' (App_start Map.empty)"
        "Resolved []" "Resolved []" "browser_at ''/''"]
    by (simp add: wire_axios_get login_fields browser_at_def)
qed

text \<open>
  Claim C10 as stated fails without a token. On a first start with nothing in storage,
  and again after a logout, a navigation to the dashboard path ends in the login view and
  no request at all has been sent: the guard has redirected before the component and its
  effect could run.
\<close>

theorem visit_dashboard_without_token_counterexample:
  "token (App_start Map.empty) = None \<and>
   visit ''/dashboard'' (App_start Map.empty) (Resolved []) (Resolved []) (browser_at ''/'') =
     (None, \<lparr>sent = [], console = [], location = ''/login''\<rparr>) \<and>
   token (logout (login ''abc'' ''operator'' (App_start Map.empty))) = None \<and>
   visit ''/dashboard'' (logout (login ''abc'' ''operator'' (App_start Map.empty)))
      (Resolved []) (Resolved []) (browser_at ''/'') =
     (None, \<lparr>sent = [], console = [], location = ''/login''\<rparr>)"
  by (simp add: visit_falsy truthy_def App_start_fields getItem_def logout_fields browser_at_def)

section \<open>Properties of the enrollment handler\<close>

lemma handleEnroll_resolved:
  "file_sel d = Some f \<Longrightarrow>
   handleEnroll a (Resolved msg) rp (d, b) =
     (d\<lparr>persons := (case rp of Resolved ps \<Rightarrow> ps | Rejected err \<Rightarrow> persons d),
        form := form_default, file_sel := None, message := msg, loading := False\<rparr>,
      b\<lparr>sent := sent b @ [enroll_request a (form d) f, axios_get (common a) ''/persons''],
        console := (case rp of Resolved ps \<Rightarrow> console b
                    | Rejected err \<Rightarrow> console b @ [(''Error fetching persons:'', err)])\<rparr>)"
  by (cases rp) (simp_all add: handleEnroll_def Let_def fetchPersons_simps)

lemma handleEnroll_rejected:
  "file_sel d = Some f \<Longrightarrow>
   handleEnroll a (Rejected err) rp (d, b) =
     (d\<lparr>message := ''Error: '' @ js_or (response_detail err) ''Enrollment failed'',
        loading := False\<rparr>,
      b\<lparr>sent := sent b @ [enroll_request a (form d) f]\<rparr>)"
  by (simp add: handleEnroll_def Let_def)

lemma data_enroll_request: "data (enroll_request a fm f) = formData fm f"
  by (simp add: enroll_request_def axios_post_def)

lemma data_axios_get: "data (axios_get h u) = []"
  by (simp add: axios_get_def)


lemma handleEnroll_no_file:
  "file_sel d = None \<Longrightarrow>
   handleEnroll a er rp (d, b) = (d\<lparr>message := ''Please select an image file''\<rparr>, b)"
  by (simp add: handleEnroll_def)

lemma form_gate_Valid:
  "form_gate files d = Valid \<longleftrightarrow> \<not> loading d \<and> name (form d) \<noteq> '''' \<and> files \<noteq> []"
  by (simp add: form_gate_def)

text \<open>
  Claim C5, as the code has it. A submission with the name field empty or with no file
  held sends no request and leaves the in-flight flag as it was. When the name input or
  the file input is empty the browser stops the click at that control: the handler is not
  called and no cell changes, the message included (the words shown are the browser's).
  Only when both inputs have a value and the file cell holds none, as it does after a
  completed enrollment, does the handler run; it then sets the message to exactly
  \<open>''Please select an image file''\<close> and writes nothing else.
\<close>

theorem click_enroll_without_name_or_file:
  assumes "name (form d) = '''' \<or> file_sel d = None"
  shows "click_enroll files a enroll_reply persons_reply (d, b) =
           (if form_gate files d = Valid
            then (d\<lparr>message := ''Please select an image file''\<rparr>, b) else (d, b)) \<and>
         sent (snd (click_enroll files a enroll_reply persons_reply (d, b))) = sent b \<and>
         loading (fst (click_enroll files a enroll_reply persons_reply (d, b))) = loading d \<and>
         (form_gate files d = Valid \<longleftrightarrow>
            \<not> loading d \<and> name (form d) \<noteq> '''' \<and> files \<noteq> []) \<and>
         (\<not> loading d \<and> name (form d) = '''' \<longrightarrow> form_gate files d = Invalid NameInput) \<and>
         (\<not> loading d \<and> name (form d) \<noteq> '''' \<and> files = [] \<longrightarrow>
            form_gate files d = Invalid FileInput)"
proof (cases "form_gate files d = Valid")
  case True
  then have ok: "\<not> loading d" "name (form d) \<noteq> ''''" "files \<noteq> []"
    by (simp_all add: form_gate_Valid)
  with assms have nf: "file_sel d = None"
    by simp
  have "click_enroll files a enroll_reply persons_reply (d, b) =
      handleEnroll a enroll_reply persons_reply (d, b)"
    using True by (simp add: click_enroll_def)
  also have "\<dots> = (d\<lparr>message := ''Please select an image file''\<rparr>, b)"
    by (rule handleEnroll_no_file [OF nf])
  finally have eq: "click_enroll files a enroll_reply persons_reply (d, b) =
      (d\<lparr>message := ''Please select an image file''\<rparr>, b)" .
  show ?thesis
    unfolding eq using True ok by simp
next
  case False
  then show ?thesis
    by (cases "form_gate files d") (auto simp: click_enroll_def form_gate_def split: if_splits)
qed

text \<open>
  The instance below follows one user through the form: a file is chosen and a name typed, the
  enrollment succeeds, a second name is typed and the button is clicked again, the file
  input still holding the file and the file cell holding none. A click with the file
  chosen and no name typed is stopped at the name input.
\<close>

theorem click_enroll_without_name_or_file_witness:
  "file_sel (fst (handleInputChange ''name'' ''John Roe''
      (click_enroll [File ''jane.png'' [137, 80, 78, 71]]
         (login ''abc'' ''operator'' (App_start Map.empty)) (Resolved ''enrolled'') (Resolved [])
         (handleInputChange ''name'' ''Jane Doe''
            (handleFileChange (Some [File ''jane.png'' [137, 80, 78, 71]])
               (Dashboard_initial, browser_at ''/dashboard'')))))) = None \<and>
   form_gate [File ''jane.png'' [137, 80, 78, 71]]
     (fst (handleInputChange ''name'' ''John Roe''
        (click_enroll [File ''jane.png'' [137, 80, 78, 71]]
           (login ''abc'' ''operator'' (App_start Map.empty)) (Resolved ''enrolled'') (Resolved [])
           (handleInputChange ''name'' ''Jane Doe''
              (handleFileChange (Some [File ''jane.png'' [137, 80, 78, 71]])
                 (Dashboard_initial, browser_at ''/dashboard'')))))) = Valid \<and>
   message (fst (click_enroll [File ''jane.png'' [137, 80, 78, 71]]
      (login ''abc'' ''operator'' (App_start Map.empty)) (Resolved ''enrolled'') (Resolved [])
      (handleInputChange ''name'' ''John Roe''
         (click_enroll [File ''jane.png'' [137, 80, 78, 71]]
            (login ''abc'' ''operator'' (App_start Map.empty)) (Resolved ''enrolled'') (Resolved [])
            (handleInputChange ''name'' ''Jane Doe''
               (handleFileChange (Some [File ''jane.png'' [137, 80, 78, 71]])
                  (Dashboard_initial, browser_at ''/dashboard''))))))) =
     ''Please select an image file'' \<and>
   map wire (sent (snd (click_enroll [File ''jane.png'' [137, 80, 78, 71]]
      (login ''abc'' ''operator'' (App_start Map.empty)) (Resolved ''enrolled'') (Resolved [])
      (handleInputChange ''name'' ''John Roe''
         (click_enroll [File ''jane.png'' [137, 80, 78, 71]]
            (login ''abc'' ''operator'' (App_start Map.empty)) (Resolved ''enrolled'') (Resolved [])
            (handleInputChange ''name'' ''Jane Doe''
               (handleFileChange (Some [File ''jane.png'' [137, 80, 78, 71]])
                  (Dashboard_initial, browser_at ''/dashboard'')))))))) =
     [(POST, ''/enroll'', Some ''Bearer abc''), (GET, ''/persons'', Some ''Bearer abc'')] \<and>
   name (form (fst (handleFileChange (Some [File ''jane.png'' [137, 80, 78, 71]])
      (Dashboard_initial, browser_at ''/dashboard'')))) = '''' \<and>
   form_gate [File ''jane.png'' [137, 80, 78, 71]]
     (fst (handleFileChange (Some [File ''jane.png'' [137, 80, 78, 71]])
        (Dashboard_initial, browser_at ''/dashboard''))) = Invalid NameInput \<and>
   click_enroll [File ''jane.png'' [137, 80, 78, 71]]
      (login ''abc'' ''operator'' (App_start Map.empty)) (Resolved ''enrolled'') (Resolved [])
      (handleFileChange (Some [File ''jane.png'' [137, 80, 78, 71]])
         (Dashboard_initial, browser_at ''/dashboard'')) =
     handleFileChange (Some [File ''jane.png'' [137, 80, 78, 71]])
       (Dashboard_initial, browser_at ''/dashboard'')"
proof -
  have chosen: "handleFileChange (Some [File ''jane.png'' [137, 80, 78, 71]])
        (Dashboard_initial, browser_at ''/dashboard'') =
      (Dashboard_initial\<lparr>file_sel := Some (File ''jane.png'' [137, 80, 78, 71])\<rparr>,
       browser_at ''/dashboard'')"
    by (simp add: handleFileChange_def)
  have typed: "handleInputChange ''name'' ''Jane Doe''
        (Dashboard_initial\<lparr>file_sel := Some (File ''jane.png'' [137, 80, 78, 71])\<rparr>,
         browser_at ''/dashboard'') =
      (Dashboard_initial
         \<lparr>form := form_default\<lparr>name := ''Jane Doe''\<rparr>,
          file_sel := Some (File ''jane.png'' [137, 80, 78, 71])\<rparr>,
       browser_at ''/dashboard'')"
    by (simp add: handleInputChange_def Dashboard_initial_def)
  have enrolled: "click_enroll [File ''jane.png'' [137, 80, 78, 71]]
        (login ''abc'' ''operator'' (App_start Map.empty)) (Resolved ''enrolled'') (Resolved [])
        (Dashboard_initial
           \<lparr>form := form_default\<lparr>name := ''Jane Doe''\<rparr>,
            file_sel := Some (File ''jane.png'' [137, 80, 78, 71])\<rparr>,
         browser_at ''/dashboard'') =
      (Dashboard_initial\<lparr>message := ''enrolled''\<rparr>,
       (browser_at ''/dashboard'')
         \<lparr>sent :=
            [enroll_request (login ''abc'' ''operator'' (App_start Map.empty))
               (form_default\<lparr>name := ''Jane Doe''\<rparr>) (File ''jane.png'' [137, 80, 78, 71]),
             axios_get (common (login ''abc'' ''operator'' (App_start Map.empty))) ''/persons'']\<rparr>)"
    by (simp add: click_enroll_def form_gate_def handleEnroll_resolved Dashboard_initial_def
        form_default_def browser_at_def)
  have again: "handleInputChange ''name'' ''John Roe''
        (Dashboard_initial\<lparr>message := ''enrolled''\<rparr>,
         (browser_at ''/dashboard'')
           \<lparr>sent :=
              [enroll_request (login ''abc'' ''operator'' (App_start Map.empty))
                 (form_default\<lparr>name := ''Jane Doe''\<rparr>) (File ''jane.png'' [137, 80, 78, 71]),
               axios_get (common (login ''abc'' ''operator'' (App_start Map.empty))) ''/persons'']\<rparr>) =
      (Dashboard_initial\<lparr>form := form_default\<lparr>name := ''John Roe''\<rparr>, message := ''enrolled''\<rparr>,
       (browser_at ''/dashboard'')
         \<lparr>sent :=
            [enroll_request (login ''abc'' ''operator'' (App_start Map.empty))
               (form_default\<lparr>name := ''Jane Doe''\<rparr>) (File ''jane.png'' [137, 80, 78, 71]),
             axios_get (common (login ''abc'' ''operator'' (App_start Map.empty))) ''/persons'']\<rparr>)"
    by (simp add: handleInputChange_def Dashboard_initial_def)
  have h1: "name (form (Dashboard_initial
        \<lparr>form := form_default\<lparr>name := ''John Roe''\<rparr>, message := ''enrolled''\<rparr>)) = '''' \<or>
      file_sel (Dashboard_initial
        \<lparr>form := form_default\<lparr>name := ''John Roe''\<rparr>, message := ''enrolled''\<rparr>) = None"
    by (simp add: Dashboard_initial_def)
  have h2: "name (form (Dashboard_initial
        \<lparr>file_sel := Some (File ''jane.png'' [137, 80, 78, 71])\<rparr>)) = '''' \<or>
      file_sel (Dashboard_initial
        \<lparr>file_sel := Some (File ''jane.png'' [137, 80, 78, 71])\<rparr>) = None"
    by (simp add: Dashboard_initial_def form_default_def)
  show ?thesis
    unfolding chosen typed enrolled again
    using click_enroll_without_name_or_file [OF h1, of "[File ''jane.png'' [137, 80, 78, 71]]"
        "login ''abc'' ''operator'' (App_start Map.empty)" "Resolved ''enrolled''" "Resolved []"
        "(browser_at ''/dashboard'')
           \<lparr>sent :=
              [enroll_request (login ''abc'' ''operator'' (App_start Map.empty))
                 (form_default\<lparr>name := ''Jane Doe''\<rparr>) (File ''jane.png'' [137, 80, 78, 71]),
               axios_get (common (login ''abc'' ''operator'' (App_start Map.empty))) ''/persons'']\<rparr>"]
      click_enroll_without_name_or_file [OF h2, of "[File ''jane.png'' [137, 80, 78, 71]]"
        "login ''abc'' ''operator'' (App_start Map.empty)" "Resolved ''enrolled''" "Resolved []"
        "browser_at ''/dashboard''"]
    by (simp add: Dashboard_initial_def form_default_def form_gate_def wire_enroll_request
        wire_axios_get bearer_def login_fields)
qed

text \<open>
  Claim C5 as stated fails for the message. On the form as it is first shown, with a
  name typed and no file chosen, no file is selected and the click sends nothing; but it is
  stopped at the file input by the browser, the handler does not run, and the message of
  the component stays empty instead of becoming \<open>''Please select an image file''\<close>.
\<close>

theorem click_enroll_no_file_counterexample:
  "name (form (fst (handleInputChange ''name'' ''Jane Doe''
      (Dashboard_initial, browser_at ''/dashboard'')))) = ''Jane Doe'' \<and>
   file_sel (fst (handleInputChange ''name'' ''Jane Doe''
      (Dashboard_initial, browser_at ''/dashboard''))) = None \<and>
   form_gate [] (fst (handleInputChange ''name'' ''Jane Doe''
      (Dashboard_initial, browser_at ''/dashboard''))) = Invalid FileInput \<and>
   message (fst (click_enroll [] (login ''abc'' ''operator'' (App_start Map.empty))
      (Resolved ''enrolled'') (Resolved [])
      (handleInputChange ''name'' ''Jane Doe''
         (Dashboard_initial, browser_at ''/dashboard'')))) = '''' \<and>
   sent (snd (click_enroll [] (login ''abc'' ''operator'' (App_start Map.empty))
      (Resolved ''enrolled'') (Resolved [])
      (handleInputChange ''name'' ''Jane Doe''
         (Dashboard_initial, browser_at ''/dashboard'')))) = []"
  by (simp add: handleInputChange_def click_enroll_def form_gate_def Dashboard_initial_def
      form_default_def browser_at_def)



text \<open>
  Claim C7. When a file is selected and the enrollment request is rejected, the state
  after the handler is the state before it with two cells written: the message, which
  shows the error, and the in-flight flag, which is off. Name, category, expiry, contact
  and the file selection are what the user entered, the roster and the events are
  untouched, one request has been sent, and submitting again sends the same request again.
\<close>

theorem handleEnroll_failure_frame:
  assumes "file_sel d = Some f"
  shows "handleEnroll a (Rejected err) persons_reply (d, b) =
           (d\<lparr>message := ''Error: '' @ js_or (response_detail err) ''Enrollment failed'',
              loading := False\<rparr>,
            b\<lparr>sent := sent b @ [enroll_request a (form d) f]\<rparr>) \<and>
         form (fst (handleEnroll a (Rejected err) persons_reply (d, b))) = form d \<and>
         file_sel (fst (handleEnroll a (Rejected err) persons_reply (d, b))) = Some f \<and>
         persons (fst (handleEnroll a (Rejected err) persons_reply (d, b))) = persons d \<and>
         events (fst (handleEnroll a (Rejected err) persons_reply (d, b))) = events d \<and>
         loading (fst (handleEnroll a (Rejected err) persons_reply (d, b))) = False \<and>
         sent (snd (handleEnroll a (Rejected err') persons_reply'
                 (handleEnroll a (Rejected err) persons_reply (d, b)))) =
           sent b @ [enroll_request a (form d) f, enroll_request a (form d) f]"
  using assms by (simp add: handleEnroll_rejected)

theorem handleEnroll_failure_frame_witness:
  "file_sel (Dashboard_initial
      \<lparr>form := \<lparr>name = ''Jane Doe'', category = ''Temporary'', expiry = ''2026-12-31'',
                contact = ''jane@example.org''\<rparr>,
       file_sel := Some (File ''jane.png'' [137, 80, 78, 71])\<rparr>) =
     Some (File ''jane.png'' [137, 80, 78, 71]) \<and>
   fst (handleEnroll (login ''abc'' ''operator'' (App_start Map.empty))
      (Rejected NoResponse) (Resolved [])
      (Dashboard_initial
         \<lparr>form := \<lparr>name = ''Jane Doe'', category = ''Temporary'', expiry = ''2026-12-31'',
                   contact = ''jane@example.org''\<rparr>,
          file_sel := Some (File ''jane.png'' [137, 80, 78, 71])\<rparr>,
       browser_at ''/dashboard'')) =
     \<lparr>persons = [], events = [],
      form = \<lparr>name = ''Jane Doe'', category = ''Temporary'', expiry = ''2026-12-31'',
              contact = ''jane@example.org''\<rparr>,
      file_sel = Some (File ''jane.png'' [137, 80, 78, 71]),
      message = ''Error: Enrollment failed'', loading = False\<rparr>"
proof -
  have h: "file_sel (Dashboard_initial
      \<lparr>form := \<lparr>name = ''Jane Doe'', category = ''Temporary'', expiry = ''2026-12-31'',
                contact = ''jane@example.org''\<rparr>,
       file_sel := Some (File ''jane.png'' [137, 80, 78, 71])\<rparr>) =
     Some (File ''jane.png'' [137, 80, 78, 71])"
    by simp
  show ?thesis
    using h handleEnroll_failure_frame [OF h, of "login ''abc'' ''operator'' (App_start Map.empty)"
        NoResponse "Resolved []" "browser_at ''/dashboard''" NoResponse "Resolved []"]
    by (simp add: Dashboard_initial_def js_or_def)
qed




end
